theory Spec2Isabelle
  imports Main
begin

section \<open>Values, dictionaries, exceptions\<close>

text \<open>
  The bodies handled by the service are decoded JSON objects. Numbers are modelled as
  integers (floating point numbers are outside the model).
\<close>

datatype json =
    JNull
  | JBool bool
  | JNum int
  | JStr string
  | JArr "json list"
  | JObj "(string \<times> json) list"

text \<open>
  A Python \<open>dict\<close> with string keys, in insertion order. A Python dict has no two
  entries with the same key; lookups read the first entry of a key (\<open>map_of\<close>).
\<close>

type_synonym pydict = "(string \<times> json) list"

text \<open>The keys of a dict in iteration order: \<open>for field in data\<close>.\<close>

definition dict_keys :: "pydict \<Rightarrow> string list" where
  "dict_keys d = map fst d"

text \<open>
  \<open>d[k] = v\<close>: an existing key keeps its position and takes the new value, a new key is
  appended.
\<close>

fun dict_set :: "string \<Rightarrow> json \<Rightarrow> pydict \<Rightarrow> pydict" where
  "dict_set k v [] = [(k, v)]"
| "dict_set k v (p # d) = (if fst p = k then (k, v) # d else p # dict_set k v d)"

text \<open>\<open>d.update(e)\<close>: \<open>d[k] = v\<close> for every item of \<open>e\<close>, in order.\<close>

definition dict_update :: "pydict \<Rightarrow> pydict \<Rightarrow> pydict" where
  "dict_update d e = fold (\<lambda>p acc. dict_set (fst p) (snd p) acc) e d"

text \<open>\<open>sep.join(xs)\<close>.\<close>

fun join :: "string \<Rightarrow> string list \<Rightarrow> string" where
  "join sep [] = []"
| "join sep [x] = x"
| "join sep (x # y # ys) = x @ sep @ join sep (y # ys)"

text \<open>
  A raised exception. The service distinguishes only \<open>except ValueError\<close> from
  \<open>except Exception\<close>: \<open>ValueError\<close> stands for an instance of \<open>ValueError\<close> or of
  one of its subclasses, \<open>OtherError\<close> for an instance of any other subclass of
  \<open>Exception\<close>. The string is \<open>str(e)\<close>.
\<close>

datatype exn = ValueError string | OtherError string

fun str_exn :: "exn \<Rightarrow> string" where
  "str_exn (ValueError m) = m"
| "str_exn (OtherError m) = m"

text \<open>
  What a service or resource method returns: \<open>None\<close>, the string
  \<open>json_util.dumps(doc)\<close> (kept as the document it serialises), a bare payload dict, or
  a pair of a payload dict and a status code.
\<close>

datatype retval =
    RNone
  | RDumps pydict
  | RDict pydict
  | RPair pydict int

text \<open>
  Python truthiness of a returned value: \<open>None\<close> and the empty dict are false; the
  output of \<open>json_util.dumps\<close> is never the empty string and a pair is never the empty
  tuple.
\<close>

fun truthy :: "retval \<Rightarrow> bool" where
  "truthy RNone = False"
| "truthy (RDumps d) = True"
| "truthy (RDict d) = (d \<noteq> [])"
| "truthy (RPair d n) = True"

text \<open>
  \<open>json_util.loads\<close> inverts \<open>json_util.dumps\<close> and raises \<open>TypeError\<close> on anything
  that is not a string.
\<close>

fun json_util_loads :: "retval \<Rightarrow> exn + retval" where
  "json_util_loads (RDumps d) = Inr (RDict d)"
| "json_util_loads r =
     Inl (OtherError ''the JSON object must be str, bytes or bytearray'')"

section \<open>The collection\<close>

text \<open>
  The service receives the collection as an argument and only calls its methods
  (the tests pass a mock). A collection over a store state \<open>'s\<close> is the record of these
  methods. Every filter the service builds is \<open>{"_id": v}\<close>, so a filter is given by
  \<open>v\<close>. A read returns its value or raises; a write returns or raises and leaves a store
  state behind in both cases. \<open>delete_one\<close> returns \<open>deleted_count\<close>.
\<close>

record 's collection =
  find_one :: "json \<Rightarrow> 's \<Rightarrow> exn + pydict option"
  insert_one :: "pydict \<Rightarrow> 's \<Rightarrow> exn option \<times> 's"
  delete_one :: "json \<Rightarrow> 's \<Rightarrow> (exn + nat) \<times> 's"
  find_one_and_replace :: "json \<Rightarrow> pydict \<Rightarrow> 's \<Rightarrow> exn option \<times> 's"

subsection \<open>A MongoDB collection\<close>

text \<open>
  Modelled from the spec: the document store adapter (an external collaborator, the
  driver's collection object on a MongoDB server) is not part of the repository. The
  spec gives a collection of records keyed by the identifier field \<open>_id\<close>, the primary
  key, unique and immutable. The state is the list of the stored documents in natural
  order. A lookup returns a fresh dict, so changing it does not change the store.
\<close>

definition matches_id :: "json \<Rightarrow> pydict \<Rightarrow> bool" where
  "matches_id v d = (map_of d ''_id'' = Some v)"

fun remove_first :: "('a \<Rightarrow> bool) \<Rightarrow> 'a list \<Rightarrow> 'a list" where
  "remove_first P [] = []"
| "remove_first P (x # xs) = (if P x then xs else x # remove_first P xs)"

fun replace_first :: "('a \<Rightarrow> bool) \<Rightarrow> 'a \<Rightarrow> 'a list \<Rightarrow> 'a list" where
  "replace_first P y [] = []"
| "replace_first P y (x # xs) = (if P x then y # xs else x # replace_first P y xs)"

text \<open>
  Modelled from the spec: a write can meet a store-level failure, which the spec leaves
  to the store. The driver's documentation has its encoder refuse an integer outside
  64 bits (\<open>OverflowError\<close>), at any depth of the document. Other refusals of the
  driver or the server (the size of a document, its depth, the form of nested field
  names) are not modelled; no theorem below claims that a write is accepted except at a
  concrete document.
\<close>

fun bson_encodable :: "json \<Rightarrow> bool" where
  "bson_encodable (JNum n) = (- (2 ^ 63) \<le> n \<and> n < 2 ^ 63)"
| "bson_encodable (JArr xs) = list_all bson_encodable xs"
| "bson_encodable (JObj kvs) = list_all bson_encodable (map snd kvs)"
| "bson_encodable v = True"

definition doc_encodable :: "pydict \<Rightarrow> bool" where
  "doc_encodable d = list_all bson_encodable (map snd d)"

definition overflow_error :: exn where
  "overflow_error = OtherError ''MongoDB can only handle up to 8-byte ints''"

text \<open>
  Modelled from the spec: \<open>find_one\<close> of the store adapter, the first stored document
  with the given \<open>_id\<close>, or \<open>None\<close>.
\<close>

definition mongo_find_one :: "json \<Rightarrow> pydict list \<Rightarrow> exn + pydict option" where
  "mongo_find_one v s = Inr (List.find (matches_id v) s)"

text \<open>
  Modelled from the spec: \<open>insert_one\<close> of the store adapter. The document is encoded
  first; a stored document with the same \<open>_id\<close> makes the insertion fail
  (\<open>DuplicateKeyError\<close>). A document without \<open>_id\<close> would be given a generated
  \<open>ObjectId\<close> by the driver; \<open>add_cake\<close> sets \<open>_id\<close> before it inserts, so the model
  stores such a document as it is.
\<close>

definition mongo_insert_one :: "pydict \<Rightarrow> pydict list \<Rightarrow> exn option \<times> pydict list" where
  "mongo_insert_one d s =
     (if \<not> doc_encodable d then (Some overflow_error, s)
      else
        case map_of d ''_id'' of
          None \<Rightarrow> (None, s @ [d])
        | Some v \<Rightarrow>
            if list_ex (matches_id v) s
            then (Some (OtherError ''E11000 duplicate key error''), s)
            else (None, s @ [d]))"

text \<open>
  Modelled from the spec: \<open>delete_one\<close> of the store adapter removes the first stored
  document with the given \<open>_id\<close> and reports how many it removed.
\<close>

definition mongo_delete_one :: "json \<Rightarrow> pydict list \<Rightarrow> (exn + nat) \<times> pydict list" where
  "mongo_delete_one v s =
     (if list_ex (matches_id v) s then (Inr 1, remove_first (matches_id v) s)
      else (Inr 0, s))"

text \<open>
  Modelled from the spec: \<open>find_one_and_replace\<close> of the store adapter. The replacement
  is encoded first. The identifier is immutable: a replacement that alters the \<open>_id\<close> of
  the matched document is refused (\<open>OperationFailure\<close>), and a replacement without
  \<open>_id\<close> keeps the \<open>_id\<close> of the document it replaces.
\<close>

definition mongo_find_one_and_replace ::
    "json \<Rightarrow> pydict \<Rightarrow> pydict list \<Rightarrow> exn option \<times> pydict list" where
  "mongo_find_one_and_replace v r s =
     (if \<not> doc_encodable r then (Some overflow_error, s)
      else if list_ex (matches_id v) s then
        (case map_of r ''_id'' of
           None \<Rightarrow> (None, replace_first (matches_id v) ((''_id'', v) # r) s)
         | Some w \<Rightarrow>
             if w = v then (None, replace_first (matches_id v) r s)
             else (Some (OtherError
                     ''the (immutable) field _id was found to have been altered''), s))
      else (None, s))"

definition mongo :: "(pydict list) collection" where
  "mongo = \<lparr> find_one = mongo_find_one, insert_one = mongo_insert_one,
             delete_one = mongo_delete_one,
             find_one_and_replace = mongo_find_one_and_replace \<rparr>"

text \<open>The identifiers of the stored documents, in store order.\<close>

definition stored_ids :: "pydict list \<Rightarrow> json option list" where
  "stored_ids s = map (\<lambda>d. map_of d ''_id'') s"

subsection \<open>What the service relies on\<close>

text \<open>
  A store keyed by \<open>_id\<close> gives back what it accepted: after \<open>insert_one\<close> has returned
  for a document with an \<open>_id\<close>, a lookup of that \<open>_id\<close> finds a document with the same
  fields and values.
\<close>

definition read_after_insert :: "'s collection \<Rightarrow> bool" where
  "read_after_insert c =
     (\<forall>d v s s'. insert_one c d s = (None, s') \<and> map_of d ''_id'' = Some v
        \<longrightarrow> (\<exists>d'. find_one c v s' = Inr (Some d') \<and> map_of d' = map_of d))"

subsection \<open>A collection whose calls raise\<close>

text \<open>
  A collection every method of which raises the given exception, as a collection does
  whose server cannot be reached, or a mock with a \<open>side_effect\<close>.
\<close>

definition raising :: "exn \<Rightarrow> unit collection" where
  "raising e = \<lparr> find_one = (\<lambda>v s. Inl e), insert_one = (\<lambda>d s. (Some e, s)),
                 delete_one = (\<lambda>v s. (Inl e, s)),
                 find_one_and_replace = (\<lambda>v r s. (Some e, s)) \<rparr>"

section \<open>CakeService\<close>

definition not_found :: retval where
  "not_found = RPair [(''message'', JStr ''Cake not found'')] 404"

text \<open>
  \<open>get_cake_by_id\<close>: only \<open>ValueError\<close> is caught; \<open>json_util.dumps(cake) if cake else
  None\<close> tests the truth of the document that was found. The identifier comes from the
  route as a string, so \<open>str(cake_id)\<close> is \<open>cake_id\<close>.
\<close>

definition get_cake_by_id :: "'s collection \<Rightarrow> string \<Rightarrow> 's \<Rightarrow> exn + retval" where
  "get_cake_by_id cake_collection cake_id s =
     (case find_one cake_collection (JStr cake_id) s of
        Inl (ValueError m) \<Rightarrow> Inr not_found
      | Inl (OtherError m) \<Rightarrow> Inl (OtherError m)
      | Inr None \<Rightarrow> Inr RNone
      | Inr (Some cake) \<Rightarrow> Inr (if cake \<noteq> [] then RDumps cake else RNone))"

definition required_fields :: "string list" where
  "required_fields = [''name'', ''comment'', ''imageUrl'', ''yumFactor'']"

definition allowed_fields :: "string list" where
  "allowed_fields = required_fields @ [''_id'']"

text \<open>
  \<open>add_cake\<close>. The argument \<open>uuid4\<close> is the string \<open>str(uuid.uuid4())\<close> drawn by this
  call. The dict \<open>data\<close> is changed in place, so the function returns, with its result,
  the dict the caller holds afterwards and the store state. The lookup \<open>data["_id"]\<close> in
  the \<open>try\<close> block would raise \<open>KeyError\<close> on a missing key, which \<open>except Exception\<close>
  catches.
\<close>

definition add_cake ::
    "'s collection \<Rightarrow> string \<Rightarrow> pydict \<Rightarrow> 's \<Rightarrow> retval \<times> pydict \<times> 's" where
  "add_cake cake_collection uuid4 data s =
     (if \<not> list_all (\<lambda>field. field \<in> set (dict_keys data)) required_fields then
        (RPair [(''message'', JStr ''Missing required fields in the data'')] 400, data, s)
      else
        let unexpected_fields =
              filter (\<lambda>field. field \<notin> set allowed_fields) (dict_keys data)
        in
          if unexpected_fields \<noteq> [] then
            (RPair [(''message'',
                     JStr (''Unexpected fields: '' @ join '', '' unexpected_fields))] 400,
             data, s)
          else
            let data' = dict_set ''_id'' (JStr uuid4) data in
              (case insert_one cake_collection data' s of
                 (Some e, s') \<Rightarrow>
                   (RPair [(''message'', JStr ''Server error while adding the cake''),
                           (''error'', JStr (str_exn e))] 500, data', s')
               | (None, s') \<Rightarrow>
                   (case map_of data' ''_id'' of
                      Some i \<Rightarrow>
                        (RDict [(''message'', JStr ''Cake added successfully''),
                                (''_id'', i)], data', s')
                    | None \<Rightarrow>
                        (RPair [(''message'', JStr ''Server error while adding the cake''),
                                (''error'', JStr (CHR 0x27 # ''_id'' @ [CHR 0x27]))] 500,
                         data', s'))))"

definition delete_cake :: "'s collection \<Rightarrow> string \<Rightarrow> 's \<Rightarrow> (exn + retval) \<times> 's" where
  "delete_cake cake_collection cake_id s =
     (case delete_one cake_collection (JStr cake_id) s of
        (Inl e, s') \<Rightarrow> (Inl e, s')
      | (Inr deleted_count, s') \<Rightarrow>
          (Inr (if deleted_count = 1
                then RDict [(''message'', JStr ''Cake deleted successfully'')]
                else not_found), s'))"

text \<open>
  \<open>update_cake\<close>: \<open>existing_cake\<close> is the dict returned by \<open>find_one\<close>; it is updated
  in place and passed to \<open>find_one_and_replace\<close>. Nothing is caught.
\<close>

definition update_cake ::
    "'s collection \<Rightarrow> string \<Rightarrow> pydict \<Rightarrow> 's \<Rightarrow> (exn + retval) \<times> 's" where
  "update_cake cake_collection cake_id data s =
     (case find_one cake_collection (JStr cake_id) s of
        Inl e \<Rightarrow> (Inl e, s)
      | Inr None \<Rightarrow> (Inr not_found, s)
      | Inr (Some existing_cake) \<Rightarrow>
          (case find_one_and_replace cake_collection (JStr cake_id)
                  (dict_update existing_cake data) s of
             (Some e, s') \<Rightarrow> (Inl e, s')
           | (None, s') \<Rightarrow>
               (Inr (RDict [(''message'', JStr ''Cake updated successfully'')]), s')))"

section \<open>The Cake resource\<close>

text \<open>
  \<open>Cake.get\<close> of the controller: \<open>if cake: return json_util.loads(cake)\<close>, otherwise
  the not-found pair. \<open>Cake.delete\<close>, \<open>Cake.put\<close> and \<open>Cakes.post\<close> return the
  service's result as it is.
\<close>

definition Cake_get :: "'s collection \<Rightarrow> string \<Rightarrow> 's \<Rightarrow> exn + retval" where
  "Cake_get cakes cake_id s =
     (case get_cake_by_id cakes cake_id s of
        Inl e \<Rightarrow> Inl e
      | Inr cake \<Rightarrow> if truthy cake then json_util_loads cake else Inr not_found)"

section \<open>Dictionary facts\<close>

lemma map_of_dict_set: "map_of (dict_set k v d) = (map_of d)(k \<mapsto> v)"
  by (induction d) (auto simp: fun_eq_iff)

lemma required_all_iff:
  "list_all (\<lambda>field. field \<in> set (dict_keys data)) required_fields
     \<longleftrightarrow> set required_fields \<subseteq> set (dict_keys data)"
  by (auto simp: list_all_iff)




lemma find_None_list_ex: "List.find P xs = None \<longleftrightarrow> \<not> list_ex P xs"
  by (induction xs) auto

lemma find_append_fresh:
  "\<not> list_ex P xs \<Longrightarrow> P y \<Longrightarrow> List.find P (xs @ [y]) = Some y"
  by (induction xs) auto

lemma ids_replace_first:
  "map_of r ''_id'' = Some v \<Longrightarrow>
   map (\<lambda>d. map_of d ''_id'') (replace_first (matches_id v) r s) = map (\<lambda>d. map_of d ''_id'') s"
  by (induction s) (auto simp: matches_id_def)

lemma ids_remove_first:
  "map (\<lambda>d. map_of d ''_id'') (remove_first (matches_id v) s)
     = remove1 (Some v) (map (\<lambda>d. map_of d ''_id'') s)"
  by (induction s) (auto simp: matches_id_def)

lemma ids_no_match:
  "\<not> list_ex (matches_id v) s \<Longrightarrow> Some v \<notin> set (map (\<lambda>d. map_of d ''_id'') s)"
  by (induction s) (auto simp: matches_id_def)

lemma mongo_read_after_insert: "read_after_insert mongo"
  unfolding read_after_insert_def
proof (intro allI impI)
  fix d v and s s' :: "pydict list"
  assume a: "insert_one mongo d s = (None, s') \<and> map_of d ''_id'' = Some v"
  then have "\<not> list_ex (matches_id v) s" and "s' = s @ [d]"
    by (auto simp: mongo_def mongo_insert_one_def split: if_splits)
  moreover have "matches_id v d"
    using a by (simp add: matches_id_def)
  ultimately have "List.find (matches_id v) s' = Some d"
    by (simp add: find_append_fresh)
  then show "\<exists>d'. find_one mongo v s' = Inr (Some d') \<and> map_of d' = map_of d"
    by (simp add: mongo_def mongo_find_one_def)
qed

lemma add_cake_valid:
  assumes "set required_fields \<subseteq> set (dict_keys data)"
      and "set (dict_keys data) \<subseteq> set allowed_fields"
  shows "add_cake c u data s =
     (case insert_one c (dict_set ''_id'' (JStr u) data) s of
        (Some e, s') \<Rightarrow>
          (RPair [(''message'', JStr ''Server error while adding the cake''),
                  (''error'', JStr (str_exn e))] 500, dict_set ''_id'' (JStr u) data, s')
      | (None, s') \<Rightarrow>
          (RDict [(''message'', JStr ''Cake added successfully''), (''_id'', JStr u)],
           dict_set ''_id'' (JStr u) data, s'))"
proof -
  have "filter (\<lambda>field. field \<notin> set allowed_fields) (dict_keys data) = []"
    using assms(2) by (auto simp: filter_empty_conv)
  then show ?thesis
    using assms(1)
    by (simp add: add_cake_def required_all_iff map_of_dict_set Let_def
             split: prod.splits option.splits)
qed

section \<open>Add: validation\<close>

text \<open>
  C1. When \<open>data\<close> lacks one of the four required fields, whatever other fields it
  has, \<open>add_cake\<close> returns the pair of the message "Missing required fields in the
  data" and 400. The dict and the store state are returned as they were given, for
  every collection: no method of the collection is called. In particular the answer is
  the missing-fields one also when \<open>data\<close> has fields outside the allowed ones: the
  required-field check comes first.
\<close>

theorem add_cake_missing_required:
  assumes "\<not> set required_fields \<subseteq> set (dict_keys data)"
  shows "add_cake c u data s =
           (RPair [(''message'', JStr ''Missing required fields in the data'')] 400,
            data, s)"
  using assms by (simp add: add_cake_def required_all_iff)

theorem add_cake_missing_required_witness:
  "\<not> set required_fields \<subseteq> set (dict_keys [(''comment'', JStr ''c''), (''extraField'', JNum 1)])
   \<and> add_cake mongo ''u1'' [(''comment'', JStr ''c''), (''extraField'', JNum 1)] []
       = (RPair [(''message'', JStr ''Missing required fields in the data'')] 400,
          [(''comment'', JStr ''c''), (''extraField'', JNum 1)], [])"
proof -
  have h: "\<not> set required_fields
             \<subseteq> set (dict_keys [(''comment'', JStr ''c''), (''extraField'', JNum 1)])"
    by (simp add: required_fields_def dict_keys_def)
  show ?thesis
    using h add_cake_missing_required [OF h, of mongo "''u1''" "[]"] by simp
qed

text \<open>
  C2. When \<open>data\<close> has the four required fields and a field outside the allowed ones
  (the four required fields and the identifier field, \<open>_id\<close> in the code),
  \<open>add_cake\<close> returns the pair of a message and 400. The message is "Unexpected
  fields: " followed by the fields of \<open>data\<close> that are not allowed, in the order of
  \<open>data\<close>, joined by ", "; these are exactly the keys of \<open>data\<close> outside the allowed
  ones. The dict and the store state are returned as they were given, for every
  collection: \<open>insert_one\<close> is not called.
\<close>

theorem add_cake_unexpected_fields:
  assumes "set required_fields \<subseteq> set (dict_keys data)"
      and "\<not> set (dict_keys data) \<subseteq> set allowed_fields"
  shows "add_cake c u data s =
           (RPair [(''message'',
                    JStr (''Unexpected fields: '' @
                          join '', '' (filter (\<lambda>field. field \<notin> set allowed_fields)
                                             (dict_keys data))))] 400,
            data, s)
         \<and> set (filter (\<lambda>field. field \<notin> set allowed_fields) (dict_keys data))
             = set (dict_keys data) - set allowed_fields"
proof -
  have "filter (\<lambda>field. field \<notin> set allowed_fields) (dict_keys data) \<noteq> []"
    using assms(2) by (auto simp: filter_empty_conv)
  then show ?thesis
    using assms(1) by (auto simp: add_cake_def required_all_iff Let_def)
qed

theorem add_cake_unexpected_fields_witness:
  "add_cake mongo ''u1''
     [(''name'', JStr ''New Cake''), (''extraField'', JStr ''x''), (''comment'', JStr ''c''),
      (''imageUrl'', JStr ''i.jpg''), (''yumFactor'', JNum 5), (''_id'', JStr ''mine''),
      (''id'', JNum 7)] []
   = (RPair [(''message'', JStr ''Unexpected fields: extraField, id'')] 400,
      [(''name'', JStr ''New Cake''), (''extraField'', JStr ''x''), (''comment'', JStr ''c''),
       (''imageUrl'', JStr ''i.jpg''), (''yumFactor'', JNum 5), (''_id'', JStr ''mine''),
       (''id'', JNum 7)], [])"
proof -
  let ?data = "[(''name'', JStr ''New Cake''), (''extraField'', JStr ''x''),
      (''comment'', JStr ''c''), (''imageUrl'', JStr ''i.jpg''), (''yumFactor'', JNum 5),
      (''_id'', JStr ''mine''), (''id'', JNum 7)]"
  have h1: "set required_fields \<subseteq> set (dict_keys ?data)"
    by (simp add: required_fields_def dict_keys_def)
  have h2: "\<not> set (dict_keys ?data) \<subseteq> set allowed_fields"
    by (simp add: required_fields_def allowed_fields_def dict_keys_def)
  show ?thesis
    using add_cake_unexpected_fields [OF h1 h2, of mongo "''u1''" "[]"]
    by (simp add: required_fields_def allowed_fields_def dict_keys_def)
qed

section \<open>Add: insertion\<close>

text \<open>
  C3. When \<open>data\<close> passes both checks, the record handed to \<open>insert_one\<close> is
  \<open>data\<close> with \<open>_id\<close> set to the generated identifier \<open>u\<close> (the string of
  \<open>uuid.uuid4()\<close> drawn by the call), which replaces an \<open>_id\<close> the caller supplied.
  When \<open>insert_one\<close> returns, \<open>add_cake\<close> returns the bare payload with the message
  "Cake added successfully" and \<open>u\<close> under \<open>_id\<close>, and the store state is the one
  \<open>insert_one\<close> left. (The case in which \<open>insert_one\<close> raises is C8.)
\<close>

theorem add_cake_success:
  assumes "set required_fields \<subseteq> set (dict_keys data)"
      and "set (dict_keys data) \<subseteq> set allowed_fields"
      and "insert_one c (dict_set ''_id'' (JStr u) data) s = (None, s')"
  shows "add_cake c u data s =
           (RDict [(''message'', JStr ''Cake added successfully''), (''_id'', JStr u)],
            dict_set ''_id'' (JStr u) data, s')
         \<and> map_of (dict_set ''_id'' (JStr u) data) ''_id'' = Some (JStr u)"
  using assms by (simp add: add_cake_valid map_of_dict_set)

theorem add_cake_success_witness:
  "add_cake mongo ''u1''
     [(''_id'', JStr ''mine''), (''name'', JStr ''n''), (''comment'', JStr ''c''),
      (''imageUrl'', JStr ''i.jpg''), (''yumFactor'', JNum 5)] []
   = (RDict [(''message'', JStr ''Cake added successfully''), (''_id'', JStr ''u1'')],
      [(''_id'', JStr ''u1''), (''name'', JStr ''n''), (''comment'', JStr ''c''),
       (''imageUrl'', JStr ''i.jpg''), (''yumFactor'', JNum 5)],
      [[(''_id'', JStr ''u1''), (''name'', JStr ''n''), (''comment'', JStr ''c''),
        (''imageUrl'', JStr ''i.jpg''), (''yumFactor'', JNum 5)]])"
proof -
  let ?data = "[(''_id'', JStr ''mine''), (''name'', JStr ''n''), (''comment'', JStr ''c''),
      (''imageUrl'', JStr ''i.jpg''), (''yumFactor'', JNum 5)]"
  let ?data' = "[(''_id'', JStr ''u1''), (''name'', JStr ''n''), (''comment'', JStr ''c''),
      (''imageUrl'', JStr ''i.jpg''), (''yumFactor'', JNum 5)]"
  have h1: "set required_fields \<subseteq> set (dict_keys ?data)"
    by (simp add: required_fields_def dict_keys_def)
  have h2: "set (dict_keys ?data) \<subseteq> set allowed_fields"
    by (simp add: required_fields_def allowed_fields_def dict_keys_def)
  have h3: "insert_one mongo (dict_set ''_id'' (JStr ''u1'') ?data) [] = (None, [?data'])"
    by (simp add: mongo_def mongo_insert_one_def doc_encodable_def)
  show ?thesis
    using add_cake_success [OF h1 h2 h3] by simp
qed

text \<open>
  C8. When \<open>data\<close> passes both checks and \<open>insert_one\<close> raises \<open>e\<close>, \<open>add_cake\<close>
  returns the pair of a payload and 500; the payload holds the message "Server error
  while adding the cake" and \<open>str(e)\<close> under \<open>error\<close>, and has no \<open>_id\<close>.
\<close>

theorem add_cake_insert_failure:
  assumes "set required_fields \<subseteq> set (dict_keys data)"
      and "set (dict_keys data) \<subseteq> set allowed_fields"
      and "insert_one c (dict_set ''_id'' (JStr u) data) s = (Some e, s')"
  shows "fst (add_cake c u data s) =
           RPair [(''message'', JStr ''Server error while adding the cake''),
                  (''error'', JStr (str_exn e))] 500
         \<and> map_of [(''message'', JStr ''Server error while adding the cake''),
                    (''error'', JStr (str_exn e))] ''_id'' = None"
  using assms by (simp add: add_cake_valid)

theorem add_cake_insert_failure_witness:
  "fst (add_cake mongo ''u1''
     [(''name'', JStr ''n''), (''comment'', JStr ''c''),
      (''imageUrl'', JStr ''i.jpg''), (''yumFactor'', JNum 5)]
     [[(''_id'', JStr ''u1''), (''name'', JStr ''old'')]])
   = RPair [(''message'', JStr ''Server error while adding the cake''),
            (''error'', JStr ''E11000 duplicate key error'')] 500"
proof -
  let ?data = "[(''name'', JStr ''n''), (''comment'', JStr ''c''),
      (''imageUrl'', JStr ''i.jpg''), (''yumFactor'', JNum 5)]"
  let ?s = "[[(''_id'', JStr ''u1''), (''name'', JStr ''old'')]]"
  have h1: "set required_fields \<subseteq> set (dict_keys ?data)"
    by (simp add: required_fields_def dict_keys_def)
  have h2: "set (dict_keys ?data) \<subseteq> set allowed_fields"
    by (simp add: required_fields_def allowed_fields_def dict_keys_def)
  have h3: "insert_one mongo (dict_set ''_id'' (JStr ''u1'') ?data) ?s
              = (Some (OtherError ''E11000 duplicate key error''), ?s)"
    by (simp add: mongo_def mongo_insert_one_def matches_id_def doc_encodable_def)
  show ?thesis
    using add_cake_insert_failure [OF h1 h2 h3] by simp
qed

text \<open>
  C10. When \<open>data\<close> passes both checks, the dict the caller holds after the call is
  \<open>data\<close> with \<open>_id\<close> set to the generated identifier, whatever \<open>insert_one\<close> does;
  it is that dict that \<open>insert_one\<close> receives.
\<close>

theorem add_cake_mutates_data:
  assumes "set required_fields \<subseteq> set (dict_keys data)"
      and "set (dict_keys data) \<subseteq> set allowed_fields"
  shows "fst (snd (add_cake c u data s)) = dict_set ''_id'' (JStr u) data
         \<and> map_of (fst (snd (add_cake c u data s))) ''_id'' = Some (JStr u)
         \<and> snd (snd (add_cake c u data s))
             = snd (insert_one c (dict_set ''_id'' (JStr u) data) s)"
  using assms by (simp add: add_cake_valid map_of_dict_set split: prod.splits option.splits)

theorem add_cake_mutates_data_witness:
  "fst (snd (add_cake (raising (OtherError ''connection refused'')) ''u1''
     [(''name'', JStr ''n''), (''comment'', JStr ''c''),
      (''imageUrl'', JStr ''i.jpg''), (''yumFactor'', JNum 5)] ()))
   = [(''name'', JStr ''n''), (''comment'', JStr ''c''),
      (''imageUrl'', JStr ''i.jpg''), (''yumFactor'', JNum 5), (''_id'', JStr ''u1'')]
   \<and> fst (snd (add_cake mongo ''u1''
     [(''name'', JStr ''n''), (''comment'', JStr ''c''),
      (''imageUrl'', JStr ''i.jpg''), (''yumFactor'', JNum 5)] []))
   = [(''name'', JStr ''n''), (''comment'', JStr ''c''),
      (''imageUrl'', JStr ''i.jpg''), (''yumFactor'', JNum 5), (''_id'', JStr ''u1'')]"
proof -
  let ?data = "[(''name'', JStr ''n''), (''comment'', JStr ''c''),
      (''imageUrl'', JStr ''i.jpg''), (''yumFactor'', JNum 5)]"
  have h1: "set required_fields \<subseteq> set (dict_keys ?data)"
    by (simp add: required_fields_def dict_keys_def)
  have h2: "set (dict_keys ?data) \<subseteq> set allowed_fields"
    by (simp add: required_fields_def allowed_fields_def dict_keys_def)
  show ?thesis
    using add_cake_mutates_data
            [OF h1 h2, of "raising (OtherError ''connection refused'')" "''u1''" "()"]
          add_cake_mutates_data [OF h1 h2, of mongo "''u1''" "[]"]
    by simp
qed

section \<open>Round trip\<close>

text \<open>
  C4. For every valid record (the four required fields, no field outside the allowed
  ones) and every store that gives back what it accepted: when the store accepts the
  insertion, \<open>add_cake\<close> returns its success payload with the generated identifier,
  and fetching that identifier from the store left by the insertion finds a document:
  \<open>get_cake_by_id\<close> returns its serialisation and \<open>Cake.get\<close> the document itself.
  In that document each of \<open>name\<close>, \<open>comment\<close>, \<open>imageUrl\<close>, \<open>yumFactor\<close> has the
  value it has in the submitted \<open>data\<close>. (When the store refuses the insertion, Add
  returns no identifier: that is C8.)
\<close>

theorem add_then_get_roundtrip:
  assumes "set required_fields \<subseteq> set (dict_keys data)"
      and "set (dict_keys data) \<subseteq> set allowed_fields"
      and "read_after_insert c"
      and "insert_one c (dict_set ''_id'' (JStr u) data) s = (None, s')"
  shows "add_cake c u data s =
           (RDict [(''message'', JStr ''Cake added successfully''), (''_id'', JStr u)],
            dict_set ''_id'' (JStr u) data, s')
         \<and> (\<exists>d. get_cake_by_id c u s' = Inr (RDumps d)
                \<and> Cake_get c u s' = Inr (RDict d)
                \<and> (\<forall>f \<in> set required_fields.
                      map_of d f = map_of data f \<and> map_of data f \<noteq> None))"
proof -
  let ?r = "dict_set ''_id'' (JStr u) data"
  have add: "add_cake c u data s =
           (RDict [(''message'', JStr ''Cake added successfully''), (''_id'', JStr u)], ?r, s')"
    using assms(1,2,4) by (simp add: add_cake_valid)
  have "map_of ?r ''_id'' = Some (JStr u)"
    by (simp add: map_of_dict_set)
  with assms(3,4) obtain d where
    d: "find_one c (JStr u) s' = Inr (Some d)" "map_of d = map_of ?r"
    unfolding read_after_insert_def by blast
  have "map_of d ''_id'' = Some (JStr u)"
    by (simp add: d(2) map_of_dict_set)
  then have ne: "d \<noteq> []"
    by auto
  have get: "get_cake_by_id c u s' = Inr (RDumps d)"
    using d(1) ne by (simp add: get_cake_by_id_def)
  have fields: "\<forall>f \<in> set required_fields. map_of d f = map_of data f \<and> map_of data f \<noteq> None"
    using assms(1)
    by (auto simp: d(2) map_of_dict_set required_fields_def dict_keys_def map_of_eq_None_iff)
  show ?thesis
    using add get fields by (auto simp: Cake_get_def)
qed

theorem add_then_get_roundtrip_witness:
  "add_cake mongo ''u1''
     [(''name'', JStr ''Victoria Sponge''), (''comment'', JStr ''classic''),
      (''imageUrl'', JStr ''v.jpg''), (''yumFactor'', JNum 5)] []
   = (RDict [(''message'', JStr ''Cake added successfully''), (''_id'', JStr ''u1'')],
      [(''name'', JStr ''Victoria Sponge''), (''comment'', JStr ''classic''),
       (''imageUrl'', JStr ''v.jpg''), (''yumFactor'', JNum 5), (''_id'', JStr ''u1'')],
      [[(''name'', JStr ''Victoria Sponge''), (''comment'', JStr ''classic''),
        (''imageUrl'', JStr ''v.jpg''), (''yumFactor'', JNum 5), (''_id'', JStr ''u1'')]])
   \<and> (\<exists>d. Cake_get mongo ''u1''
           [[(''name'', JStr ''Victoria Sponge''), (''comment'', JStr ''classic''),
             (''imageUrl'', JStr ''v.jpg''), (''yumFactor'', JNum 5), (''_id'', JStr ''u1'')]]
          = Inr (RDict d)
        \<and> map_of d ''name'' = Some (JStr ''Victoria Sponge'')
        \<and> map_of d ''comment'' = Some (JStr ''classic'')
        \<and> map_of d ''imageUrl'' = Some (JStr ''v.jpg'')
        \<and> map_of d ''yumFactor'' = Some (JNum 5))"
proof -
  let ?data = "[(''name'', JStr ''Victoria Sponge''), (''comment'', JStr ''classic''),
                (''imageUrl'', JStr ''v.jpg''), (''yumFactor'', JNum 5)]"
  have h1: "set required_fields \<subseteq> set (dict_keys ?data)"
    by (simp add: required_fields_def dict_keys_def)
  have h2: "set (dict_keys ?data) \<subseteq> set allowed_fields"
    by (simp add: required_fields_def allowed_fields_def dict_keys_def)
  have h3: "insert_one mongo (dict_set ''_id'' (JStr ''u1'') ?data) []
              = (None, [?data @ [(''_id'', JStr ''u1'')]])"
    by (simp add: mongo_def mongo_insert_one_def doc_encodable_def)
  show ?thesis
    using add_then_get_roundtrip [OF h1 h2 mongo_read_after_insert h3]
    by (auto simp: required_fields_def)
qed

section \<open>Update\<close>



section \<open>Not found\<close>

text \<open>
  C6. On a MongoDB collection with no document stored under \<open>i\<close>:
  \<open>get_cake_by_id\<close> returns \<open>None\<close>, which \<open>Cake.get\<close> answers with the pair of
  "Cake not found" and 404; \<open>delete_cake\<close> and \<open>update_cake\<close> return that pair
  themselves and leave the store as it was. (Get only reads.)
\<close>

theorem not_found_uniform:
  assumes "\<not> list_ex (matches_id (JStr i)) s"
  shows "get_cake_by_id mongo i s = Inr RNone
         \<and> Cake_get mongo i s = Inr (RPair [(''message'', JStr ''Cake not found'')] 404)
         \<and> delete_cake mongo i s
             = (Inr (RPair [(''message'', JStr ''Cake not found'')] 404), s)
         \<and> update_cake mongo i data s
             = (Inr (RPair [(''message'', JStr ''Cake not found'')] 404), s)"
proof -
  have "List.find (matches_id (JStr i)) s = None"
    using assms by (simp add: find_None_list_ex)
  then show ?thesis
    using assms
    by (simp add: get_cake_by_id_def Cake_get_def delete_cake_def update_cake_def mongo_def
                  mongo_find_one_def mongo_delete_one_def not_found_def)
qed

theorem not_found_uniform_witness:
  "Cake_get mongo ''zz'' [[(''_id'', JStr ''a''), (''name'', JStr ''n'')]]
     = Inr (RPair [(''message'', JStr ''Cake not found'')] 404)
   \<and> delete_cake mongo ''zz'' [[(''_id'', JStr ''a''), (''name'', JStr ''n'')]]
     = (Inr (RPair [(''message'', JStr ''Cake not found'')] 404),
        [[(''_id'', JStr ''a''), (''name'', JStr ''n'')]])
   \<and> update_cake mongo ''zz'' [(''name'', JStr ''X'')]
        [[(''_id'', JStr ''a''), (''name'', JStr ''n'')]]
     = (Inr (RPair [(''message'', JStr ''Cake not found'')] 404),
        [[(''_id'', JStr ''a''), (''name'', JStr ''n'')]])"
proof -
  have h: "\<not> list_ex (matches_id (JStr ''zz'')) [[(''_id'', JStr ''a''), (''name'', JStr ''n'')]]"
    by (simp add: matches_id_def)
  show ?thesis
    using not_found_uniform [OF h, of "[(''name'', JStr ''X'')]"] by simp
qed

section \<open>Identifiers\<close>

text \<open>
  C7. On a MongoDB collection, for every call of \<open>update_cake\<close>, whatever the update
  mapping and whether the call returns or raises, the stored documents have the same
  identifiers afterwards, position by position. \<open>delete_cake\<close> only removes the
  identifier it deletes, and \<open>add_cake\<close> leaves the identifiers as they are or appends
  the identifier it generated.
\<close>

theorem identifier_immutable:
  "stored_ids (snd (update_cake mongo i data s)) = stored_ids s
   \<and> stored_ids (snd (delete_cake mongo i s)) = remove1 (Some (JStr i)) (stored_ids s)
   \<and> (stored_ids (snd (snd (add_cake mongo u data s))) = stored_ids s
      \<or> stored_ids (snd (snd (add_cake mongo u data s))) = stored_ids s @ [Some (JStr u)])"
proof -
  have upd: "stored_ids (snd (update_cake mongo i data s)) = stored_ids s"
    by (auto simp: update_cake_def mongo_def mongo_find_one_def mongo_find_one_and_replace_def
                   stored_ids_def ids_replace_first
             split: option.splits if_splits)
  have del: "stored_ids (snd (delete_cake mongo i s)) = remove1 (Some (JStr i)) (stored_ids s)"
    by (auto simp: delete_cake_def mongo_def mongo_delete_one_def stored_ids_def
                   ids_remove_first remove1_idem dest: ids_no_match)
  have add: "stored_ids (snd (snd (add_cake mongo u data s))) = stored_ids s
      \<or> stored_ids (snd (snd (add_cake mongo u data s))) = stored_ids s @ [Some (JStr u)]"
    by (auto simp: add_cake_def mongo_def mongo_insert_one_def stored_ids_def Let_def
                   map_of_dict_set
             split: option.splits if_splits)
  show ?thesis
    using upd del add by blast
qed

theorem identifier_immutable_witness:
  "stored_ids (snd (update_cake mongo ''a'' [(''_id'', JStr ''b''), (''name'', JStr ''X'')]
      [[(''_id'', JStr ''a''), (''name'', JStr ''n'')]])) = [Some (JStr ''a'')]
   \<and> stored_ids (snd (update_cake mongo ''a'' [(''name'', JStr ''X'')]
      [[(''_id'', JStr ''a''), (''name'', JStr ''n'')]])) = [Some (JStr ''a'')]"
  using identifier_immutable [of "''a''" "[(''_id'', JStr ''b''), (''name'', JStr ''X'')]"
          "[[(''_id'', JStr ''a''), (''name'', JStr ''n'')]]"]
        identifier_immutable [of "''a''" "[(''name'', JStr ''X'')]"
          "[[(''_id'', JStr ''a''), (''name'', JStr ''n'')]]"]
  by (simp add: stored_ids_def)

section \<open>Exceptions of the lookup\<close>

text \<open>
  C9, as stated, for every exception of the lookup. \<open>get_cake_by_id\<close> has
  \<open>except ValueError\<close> only: when \<open>find_one\<close> raises an exception of another class
  (here the server cannot be reached), the exception reaches the caller.
\<close>

theorem get_cake_by_id_propagates_counterexample:
  "find_one (raising (OtherError ''ServerSelectionTimeoutError'')) (JStr ''abc'') ()
     = Inl (OtherError ''ServerSelectionTimeoutError'')
   \<and> get_cake_by_id (raising (OtherError ''ServerSelectionTimeoutError'')) ''abc'' ()
     = Inl (OtherError ''ServerSelectionTimeoutError'')
   \<and> get_cake_by_id (raising (OtherError ''ServerSelectionTimeoutError'')) ''abc'' ()
     \<noteq> Inr (RPair [(''message'', JStr ''Cake not found'')] 404)"
  by (simp add: get_cake_by_id_def raising_def)

text \<open>
  C9, amended. When \<open>find_one\<close> raises a \<open>ValueError\<close>, \<open>get_cake_by_id\<close> catches
  it and returns the pair of "Cake not found" and 404; an exception of any other class
  is passed on to the caller.
\<close>

theorem get_cake_by_id_catches_ValueError:
  "(find_one c (JStr i) s = Inl (ValueError m)
      \<longrightarrow> get_cake_by_id c i s = Inr (RPair [(''message'', JStr ''Cake not found'')] 404))
   \<and> (find_one c (JStr i) s = Inl (OtherError m)
      \<longrightarrow> get_cake_by_id c i s = Inl (OtherError m))"
  by (simp add: get_cake_by_id_def not_found_def)

theorem get_cake_by_id_catches_ValueError_witness:
  "get_cake_by_id (raising (ValueError ''badly formed hexadecimal UUID string'')) ''abc'' ()
     = Inr (RPair [(''message'', JStr ''Cake not found'')] 404)
   \<and> get_cake_by_id (raising (OtherError ''ServerSelectionTimeoutError'')) ''abc'' ()
     = Inl (OtherError ''ServerSelectionTimeoutError'')"
  using get_cake_by_id_catches_ValueError
          [of "raising (ValueError ''badly formed hexadecimal UUID string'')" "''abc''" "()"
              "''badly formed hexadecimal UUID string''"]
        get_cake_by_id_catches_ValueError
          [of "raising (OtherError ''ServerSelectionTimeoutError'')" "''abc''" "()"
              "''ServerSelectionTimeoutError''"]
  by (simp add: raising_def)

end
